theory Spec2Isabelle
  imports Complex_Main
begin

section \<open>Strings\<close>

text \<open>
  Python's \<open>str.capitalize()\<close>: the first character upper-cased, every other character
  lower-cased. Strings are byte strings here, and only the ASCII letters have a case.
\<close>

definition upper_char :: "char \<Rightarrow> char" where
  "upper_char c =
     (let n = (of_char c :: nat) in if 97 \<le> n \<and> n \<le> 122 then char_of (n - 32) else c)"

definition lower_char :: "char \<Rightarrow> char" where
  "lower_char c =
     (let n = (of_char c :: nat) in if 65 \<le> n \<and> n \<le> 90 then char_of (n + 32) else c)"

fun capitalize :: "string \<Rightarrow> string" where
  "capitalize [] = []"
| "capitalize (c # cs) = upper_char c # map lower_char cs"



section \<open>JSON documents\<close>

text \<open>
  \<open>Dict[str, Any]\<close>: a dictionary is an association list in insertion order, its keys
  distinct; \<open>Any\<close> is a JSON value.
\<close>

datatype json =
    JNull
  | JBool bool
  | JInt int
  | JFloat real
  | JStr string
  | JList "json list"
  | JObj "(string \<times> json) list"

type_synonym dict = "(string \<times> json) list"

section \<open>Resource registry\<close>

definition NAMESPACE :: string where "NAMESPACE = ''kube-system''"
definition GROUP :: string where "GROUP = ''kubeovn.io''"
definition VERSION :: string where "VERSION = ''v1''"

definition RESOURCES :: "string list" where
  "RESOURCES =
     [''vpcs'', ''subnets'', ''ippools'', ''ips'', ''iptables-dnat-rules'', ''iptables-eips'',
      ''iptables-fip-rules'', ''iptables-snat-rules'', ''ovn-dnat-rules'', ''ovn-eips'',
      ''ovn-fips'', ''ovn-snat-rules'', ''provider-networks'', ''qos-policies'',
      ''security-groups'', ''switch-lb-rules'', ''vips'', ''vlans'', ''vpc-dnses'',
      ''vpc-nat-gateways'']"

definition NAMESPACED_RESOURCES :: "string list" where
  "NAMESPACED_RESOURCES = []"

text \<open>The table local to \<open>create_resource\<close>, and the lookup with its default.\<close>

definition kind_mapping :: "(string \<times> string) list" where
  "kind_mapping =
     [(''vpcs'', ''Vpc''),
      (''subnets'', ''Subnet''),
      (''ippools'', ''IpPool''),
      (''ips'', ''IP''),
      (''iptables-dnat-rules'', ''IptablesDnatRule''),
      (''iptables-eips'', ''IptablesEIP''),
      (''iptables-fip-rules'', ''IptablesFIPRule''),
      (''iptables-snat-rules'', ''IptablesSnatRule''),
      (''ovn-dnat-rules'', ''OvnDnatRule''),
      (''ovn-eips'', ''OvnEip''),
      (''ovn-fips'', ''OvnFip''),
      (''ovn-snat-rules'', ''OvnSnatRule''),
      (''provider-networks'', ''ProviderNetwork''),
      (''qos-policies'', ''QoSPolicy''),
      (''security-groups'', ''SecurityGroup''),
      (''switch-lb-rules'', ''SwitchLBRule''),
      (''vips'', ''Vip''),
      (''vlans'', ''Vlan''),
      (''vpc-dnses'', ''VpcDns''),
      (''vpc-nat-gateways'', ''VpcNatGateway'')]"

definition resolve_kind :: "string \<Rightarrow> string" where
  "resolve_kind resource =
     (case map_of kind_mapping resource of
        Some kind \<Rightarrow> kind
      | None \<Rightarrow> capitalize resource)"

section \<open>Python dictionaries and exceptions\<close>

text \<open>
  An exception is kept with what the handlers read from it: \<open>e.status\<close> and \<open>str(e)\<close> of
  the client's \<open>ApiException\<close>, and the class and argument of the exceptions the interpreter
  raises itself. Any other exception (a transport failure of the client) is \<open>OtherError\<close>
  with its \<open>str(e)\<close>.
\<close>

datatype exn =
    ApiException int string
  | KeyError string
  | TypeError string
  | AttributeError string
  | OtherError string

fun str_exn :: "exn \<Rightarrow> string" where
  "str_exn (ApiException status text) = text"
| "str_exn (KeyError k) = [CHR 0x27] @ k @ [CHR 0x27]"
| "str_exn (TypeError text) = text"
| "str_exn (AttributeError text) = text"
| "str_exn (OtherError text) = text"

fun type_name :: "json \<Rightarrow> string" where
  "type_name JNull = ''NoneType''"
| "type_name (JBool b) = ''bool''"
| "type_name (JInt i) = ''int''"
| "type_name (JFloat r) = ''float''"
| "type_name (JStr s) = ''str''"
| "type_name (JList xs) = ''list''"
| "type_name (JObj kvs) = ''dict''"

text \<open>\<open>v[key]\<close> with a string key: \<open>KeyError\<close> on a dictionary without the key,
  \<open>TypeError\<close> on anything that is not a dictionary (texts of CPython 3.11).\<close>

fun py_getitem :: "json \<Rightarrow> string \<Rightarrow> exn + json" where
  "py_getitem (JObj kvs) key =
     (case map_of kvs key of None \<Rightarrow> Inl (KeyError key) | Some v \<Rightarrow> Inr v)"
| "py_getitem (JList xs) key =
     Inl (TypeError ''list indices must be integers or slices, not str'')"
| "py_getitem (JStr s) key =
     Inl (TypeError (''string indices must be integers, not '' @ [CHR 0x27] @ ''str'' @ [CHR 0x27]))"
| "py_getitem v key =
     Inl (TypeError ([CHR 0x27] @ type_name v @ [CHR 0x27] @ '' object is not subscriptable''))"

text \<open>\<open>d[key] = v\<close>: an existing key keeps its place, a new key goes to the end.\<close>

fun dict_set :: "dict \<Rightarrow> string \<Rightarrow> json \<Rightarrow> dict" where
  "dict_set [] key v = [(key, v)]"
| "dict_set ((k, w) # kvs) key v =
     (if k = key then (k, v) # kvs else (k, w) # dict_set kvs key v)"

text \<open>\<open>d.update(other)\<close>: every item of \<open>other\<close>, in its order, is stored into \<open>d\<close>.\<close>

definition dict_update :: "dict \<Rightarrow> dict \<Rightarrow> dict" where
  "dict_update d other = fold (\<lambda>(k, v) acc. dict_set acc k v) other d"

text \<open>
  \<open>current["spec"].update(patch)\<close>: the dictionary under \<open>"spec"\<close> is changed in place, so
  \<open>current\<close> afterwards holds the merged dictionary under the same key. A value under
  \<open>"spec"\<close> that is not a dictionary has no \<open>update\<close>.
\<close>

definition update_spec :: "json \<Rightarrow> dict \<Rightarrow> exn + json" where
  "update_spec current patch =
     (case py_getitem current ''spec'' of
        Inl e \<Rightarrow> Inl e
      | Inr (JObj cur_spec) \<Rightarrow>
          (case current of
             JObj kvs \<Rightarrow> Inr (JObj (dict_set kvs ''spec'' (JObj (dict_update cur_spec patch))))
           | other \<Rightarrow> Inr other)
      | Inr v \<Rightarrow>
          Inl (AttributeError ([CHR 0x27] @ type_name v @ [CHR 0x27] @
                 '' object has no attribute '' @ [CHR 0x27] @ ''update'' @ [CHR 0x27])))"

section \<open>The remote control plane\<close>

text \<open>
  The calls of \<open>CustomObjectsApi\<close> the handlers make, with their arguments. The remote is
  a parameter: a transition function from its state and a call to the call's outcome and
  its next state. A world is the remote's state together with the calls made so far.
\<close>

datatype call =
    ListCall string string string
  | GetCall string string string string
  | CreateCall string string string json
  | PatchCall string string string string json
  | DeleteCall string string string string

type_synonym 's remote = "'s \<Rightarrow> call \<Rightarrow> (exn + json) \<times> 's"
type_synonym 's world = "'s \<times> call list"

definition invoke :: "'s remote \<Rightarrow> call \<Rightarrow> 's world \<Rightarrow> (exn + json) \<times> 's world" where
  "invoke api c w =
     (case w of (s, made) \<Rightarrow> (case api s c of (r, s') \<Rightarrow> (r, (s', made @ [c]))))"

section \<open>Request bodies and responses\<close>

text \<open>The field \<open>spec\<close> of \<open>PatchBody\<close> is \<open>patch_spec\<close> here, apart from that of
  \<open>CreateBody\<close>.\<close>

record PatchBody =
  patch_spec :: dict

record CreateBody =
  name :: string
  namespace :: "string option"
  spec :: dict

text \<open>
  A handler either returns a document, which the framework sends with its default
  status 200 (no route gives a \<open>status_code\<close>), or raises \<open>HTTPException\<close> with a status
  and a detail.
\<close>

datatype response =
    Return json
  | HTTPException int string

fun status_code :: "response \<Rightarrow> int" where
  "status_code (Return body) = 200"
| "status_code (HTTPException status detail) = status"

section \<open>The CRUD handlers\<close>

definition quoted :: "string \<Rightarrow> string" where
  "quoted s = [CHR 0x27] @ s @ [CHR 0x27]"

text \<open>\<open>GET /api/{resource}\<close>\<close>

definition get_resources :: "'s remote \<Rightarrow> string \<Rightarrow> 's world \<Rightarrow> response \<times> 's world" where
  "get_resources api resource w =
     (if resource \<notin> set RESOURCES
      then (Return (JObj [(''error'', JStr ''Invalid resource type'')]), w)
      else
        (case invoke api (ListCall GROUP VERSION resource) w of
           (Inl e, w') \<Rightarrow> (Return (JObj [(''error'', JStr (str_exn e))]), w')
         | (Inr result, w') \<Rightarrow>
             (case py_getitem result ''items'' of
                Inl e \<Rightarrow> (Return (JObj [(''error'', JStr (str_exn e))]), w')
              | Inr items \<Rightarrow> (Return items, w'))))"

text \<open>\<open>POST /api/{resource}\<close>. The namespace is added when it is truthy: given and not
  the empty string.\<close>

definition manifest_of :: "string \<Rightarrow> CreateBody \<Rightarrow> json" where
  "manifest_of kind create_body =
     JObj [(''apiVersion'', JStr (GROUP @ ''/'' @ VERSION)),
           (''kind'', JStr kind),
           (''metadata'',
              JObj ((''name'', JStr (name create_body)) #
                    (case namespace create_body of
                       None \<Rightarrow> []
                     | Some ns \<Rightarrow> if ns = [] then [] else [(''namespace'', JStr ns)]))),
           (''spec'', JObj (spec create_body))]"

definition create_resource ::
  "'s remote \<Rightarrow> string \<Rightarrow> CreateBody \<Rightarrow> 's world \<Rightarrow> response \<times> 's world" where
  "create_resource api resource create_body w =
     (if resource \<notin> set RESOURCES
      then (HTTPException 400 ''Invalid resource type'', w)
      else
        (let kind = resolve_kind resource;
             manifest = manifest_of kind create_body
         in case invoke api (CreateCall GROUP VERSION resource manifest) w of
              (Inr response, w') \<Rightarrow> (Return response, w')
            | (Inl (ApiException status text), w') \<Rightarrow>
                (if status = 409
                 then (HTTPException 409
                         (kind @ '' '' @ quoted (name create_body) @ '' already exists''), w')
                 else (HTTPException status text, w'))
            | (Inl e, w') \<Rightarrow> (HTTPException 500 (str_exn e), w')))"

text \<open>
  The body of the \<open>try\<close> of the three patch handlers: read the object, merge the given
  spec into its spec, send the whole object as the patch. The first exception ends it.
\<close>

definition patch_try ::
  "'s remote \<Rightarrow> string \<Rightarrow> string \<Rightarrow> PatchBody \<Rightarrow> 's world \<Rightarrow> (exn + json) \<times> 's world" where
  "patch_try api plural nm patch_body w =
     (case invoke api (GetCall GROUP VERSION plural nm) w of
        (Inl e, w1) \<Rightarrow> (Inl e, w1)
      | (Inr current, w1) \<Rightarrow>
          (case update_spec current (patch_spec patch_body) of
             Inl e \<Rightarrow> (Inl e, w1)
           | Inr merged \<Rightarrow> invoke api (PatchCall GROUP VERSION plural nm merged) w1))"

text \<open>The body of the \<open>try\<close> of the three delete handlers: read the object, delete it,
  return the confirmation with the given label.\<close>

definition delete_try ::
  "'s remote \<Rightarrow> string \<Rightarrow> string \<Rightarrow> string \<Rightarrow> 's world \<Rightarrow> (exn + json) \<times> 's world" where
  "delete_try api plural label nm w =
     (case invoke api (GetCall GROUP VERSION plural nm) w of
        (Inl e, w1) \<Rightarrow> (Inl e, w1)
      | (Inr current, w1) \<Rightarrow>
          (case invoke api (DeleteCall GROUP VERSION plural nm) w1 of
             (Inl e, w2) \<Rightarrow> (Inl e, w2)
           | (Inr response, w2) \<Rightarrow>
               (Inr (JObj [(''message'',
                       JStr (label @ '' '' @ quoted nm @ '' deleted successfully''))]), w2)))"

text \<open>The two \<open>except\<close> clauses shared by the patch and delete handlers, with the label
  each handler writes into its not-found detail.\<close>

fun except_not_found :: "string \<Rightarrow> string \<Rightarrow> (exn + json) \<Rightarrow> response" where
  "except_not_found label nm (Inr response) = Return response"
| "except_not_found label nm (Inl (ApiException status text)) =
     (if status = 404
      then HTTPException 404 (label @ '' '' @ quoted nm @ '' not found'')
      else HTTPException status text)"
| "except_not_found label nm (Inl e) = HTTPException 500 (str_exn e)"

text \<open>\<open>PATCH /api/subnets/{subnet_name}\<close>\<close>

definition patch_subnet ::
  "'s remote \<Rightarrow> string \<Rightarrow> PatchBody \<Rightarrow> 's world \<Rightarrow> response \<times> 's world" where
  "patch_subnet api subnet_name patch_body w =
     (case patch_try api ''subnets'' subnet_name patch_body w of
        (r, w') \<Rightarrow> (except_not_found ''Subnet'' subnet_name r, w'))"

text \<open>\<open>PATCH /api/vpc-nat-gateways/{gateway_name}\<close>\<close>

definition patch_vpc_nat_gateway ::
  "'s remote \<Rightarrow> string \<Rightarrow> PatchBody \<Rightarrow> 's world \<Rightarrow> response \<times> 's world" where
  "patch_vpc_nat_gateway api gateway_name patch_body w =
     (case patch_try api ''vpc-nat-gateways'' gateway_name patch_body w of
        (r, w') \<Rightarrow> (except_not_found ''VPC NAT Gateway'' gateway_name r, w'))"

text \<open>\<open>DELETE /api/subnets/{subnet_name}\<close>\<close>

definition delete_subnet :: "'s remote \<Rightarrow> string \<Rightarrow> 's world \<Rightarrow> response \<times> 's world" where
  "delete_subnet api subnet_name w =
     (case delete_try api ''subnets'' ''Subnet'' subnet_name w of
        (r, w') \<Rightarrow> (except_not_found ''Subnet'' subnet_name r, w'))"

text \<open>\<open>DELETE /api/vpc-nat-gateways/{gateway_name}\<close>\<close>

definition delete_vpc_nat_gateway ::
  "'s remote \<Rightarrow> string \<Rightarrow> 's world \<Rightarrow> response \<times> 's world" where
  "delete_vpc_nat_gateway api gateway_name w =
     (case delete_try api ''vpc-nat-gateways'' ''VPC NAT Gateway'' gateway_name w of
        (r, w') \<Rightarrow> (except_not_found ''VPC NAT Gateway'' gateway_name r, w'))"

text \<open>\<open>PATCH /api/{resource}/{resource_name}\<close>\<close>

definition patch_resource ::
  "'s remote \<Rightarrow> string \<Rightarrow> string \<Rightarrow> PatchBody \<Rightarrow> 's world \<Rightarrow> response \<times> 's world" where
  "patch_resource api resource resource_name patch_body w =
     (if resource \<notin> set RESOURCES
      then (HTTPException 400 ''Invalid resource type'', w)
      else
        (case patch_try api resource resource_name patch_body w of
           (r, w') \<Rightarrow> (except_not_found (capitalize resource) resource_name r, w')))"

text \<open>\<open>DELETE /api/{resource}/{resource_name}\<close>\<close>

definition delete_resource ::
  "'s remote \<Rightarrow> string \<Rightarrow> string \<Rightarrow> 's world \<Rightarrow> response \<times> 's world" where
  "delete_resource api resource resource_name w =
     (if resource \<notin> set RESOURCES
      then (HTTPException 400 ''Invalid resource type'', w)
      else
        (case delete_try api resource (capitalize resource) resource_name w of
           (r, w') \<Rightarrow> (except_not_found (capitalize resource) resource_name r, w')))"

section \<open>Route table\<close>

text \<open>
  The HTTP routes in the order their decorators register them. The framework tries the
  routes in that order and the first one whose method and path match serves the request;
  a path parameter matches one non-empty segment. A path is its list of segments.
\<close>

datatype verb = GET | POST | PATCH | DELETE

datatype segment = Lit string | Param string

datatype endpoint =
    Get_resources
  | Create_resource
  | Patch_subnet
  | Patch_vpc_nat_gateway
  | Delete_subnet
  | Delete_vpc_nat_gateway
  | Patch_resource
  | Delete_resource

definition routes :: "(verb \<times> segment list \<times> endpoint) list" where
  "routes =
     [(GET, [Lit ''api'', Param ''resource''], Get_resources),
      (POST, [Lit ''api'', Param ''resource''], Create_resource),
      (PATCH, [Lit ''api'', Lit ''subnets'', Param ''subnet_name''], Patch_subnet),
      (PATCH, [Lit ''api'', Lit ''vpc-nat-gateways'', Param ''gateway_name''],
         Patch_vpc_nat_gateway),
      (DELETE, [Lit ''api'', Lit ''subnets'', Param ''subnet_name''], Delete_subnet),
      (DELETE, [Lit ''api'', Lit ''vpc-nat-gateways'', Param ''gateway_name''],
         Delete_vpc_nat_gateway),
      (PATCH, [Lit ''api'', Param ''resource'', Param ''resource_name''], Patch_resource),
      (DELETE, [Lit ''api'', Param ''resource'', Param ''resource_name''], Delete_resource)]"

fun match_path :: "segment list \<Rightarrow> string list \<Rightarrow> (string \<times> string) list option" where
  "match_path [] [] = Some []"
| "match_path (Lit l # ps) (s # ss) = (if s = l then match_path ps ss else None)"
| "match_path (Param p # ps) (s # ss) =
     (if s = [] then None
      else (case match_path ps ss of None \<Rightarrow> None | Some binds \<Rightarrow> Some ((p, s) # binds)))"
| "match_path ps ss = None"

fun first_match ::
  "(verb \<times> segment list \<times> endpoint) list \<Rightarrow> verb \<Rightarrow> string list \<Rightarrow>
     (endpoint \<times> (string \<times> string) list) option" where
  "first_match [] m path = None"
| "first_match ((m', pat, ep) # rs) m path =
     (if m' = m
      then (case match_path pat path of
              Some binds \<Rightarrow> Some (ep, binds)
            | None \<Rightarrow> first_match rs m path)
      else first_match rs m path)"

definition dispatch :: "verb \<Rightarrow> string list \<Rightarrow> (endpoint \<times> (string \<times> string) list) option" where
  "dispatch m path = first_match routes m path"



section \<open>Watch relay\<close>

text \<open>
  What the handler of \<open>/ws\<close> does to the socket and to the watch, in order. \<open>Close\<close> is
  the socket's \<open>close()\<close>. The generator \<open>w.stream(...)\<close> of a kind is the list of the
  events it yields and the way it ends: exhausted, or with an exception. Runs in which a
  generator yields for ever are not covered; the handler does not return in them.
  \<open>send_json\<close> is a parameter, from the socket's state and the message to the socket's next
  state or an exception; so is the outcome of \<open>accept()\<close>.
\<close>

datatype effect =
    Accept
  | Subscribe string string string
  | Sent json
  | Print string
  | Stop
  | Close










text \<open>A stretch of effects made by the loops alone: subscriptions and sent messages.\<close>

definition plain :: "effect list \<Rightarrow> bool" where
  "plain tr \<longleftrightarrow> Accept \<notin> set tr \<and> Stop \<notin> set tr \<and> Close \<notin> set tr \<and> (\<forall>m. Print m \<notin> set tr)"


section \<open>Example remotes\<close>

text \<open>Remotes on which the theorems below are run. Two that fail every call, and one
  that answers every call:\<close>

definition always_404 :: "unit remote" where
  "always_404 s c = (Inl (ApiException 404 ''(404) Reason: Not Found''), s)"


definition echo :: "unit remote" where
  "echo s c =
     (case c of
        ListCall g v p \<Rightarrow> (Inr (JObj [(''items'', JList [])]), s)
      | GetCall g v p n \<Rightarrow>
          (Inr (JObj [(''kind'', JStr ''Subnet''),
                      (''spec'', JObj [(''a'', JInt 1), (''b'', JInt 3)])]), s)
      | CreateCall g v p m \<Rightarrow> (Inr m, s)
      | PatchCall g v p n m \<Rightarrow> (Inr m, s)
      | DeleteCall g v p n \<Rightarrow> (Inr (JObj [(''status'', JStr ''Success'')]), s))"







section \<open>Registry and kind names\<close>

lemma not_registered_widgets: "''widgets'' \<notin> set RESOURCES"
  by (simp add: RESOURCES_def)

lemma registered_subnets: "''subnets'' \<in> set RESOURCES"
  by (simp add: RESOURCES_def)

lemma registered_vpc_nat_gateways: "''vpc-nat-gateways'' \<in> set RESOURCES"
  by (simp add: RESOURCES_def)

lemma registry_is_table_keys: "set RESOURCES = fst ` set kind_mapping"
  by (simp add: RESOURCES_def kind_mapping_def)

text \<open>
  C1. A kind outside the registry is turned away by each of the four generic endpoints
  with the invalid-resource result, and the world comes back as it went in: the remote's
  state is untouched and no call is added to the calls made, whatever the remote is.
\<close>

theorem unknown_kind_rejected_before_remote_call:
  assumes "resource \<notin> set RESOURCES"
  shows "get_resources api resource w =
           (Return (JObj [(''error'', JStr ''Invalid resource type'')]), w)
       \<and> create_resource api resource create_body w =
           (HTTPException 400 ''Invalid resource type'', w)
       \<and> patch_resource api resource nm patch_body w =
           (HTTPException 400 ''Invalid resource type'', w)
       \<and> delete_resource api resource nm w =
           (HTTPException 400 ''Invalid resource type'', w)"
  using assms
  by (simp add: get_resources_def create_resource_def patch_resource_def delete_resource_def)

theorem unknown_kind_rejected_before_remote_call_witness:
  "''widgets'' \<notin> set RESOURCES
   \<and> get_resources echo ''widgets'' ((), []) =
       (Return (JObj [(''error'', JStr ''Invalid resource type'')]), ((), []))
   \<and> snd (snd (create_resource echo ''widgets''
         \<lparr>name = ''w1'', namespace = None, spec = []\<rparr> ((), []))) = []
   \<and> snd (snd (patch_resource echo ''widgets'' ''w1'' \<lparr>patch_spec = []\<rparr> ((), []))) = []
   \<and> snd (snd (delete_resource echo ''widgets'' ''w1'' ((), []))) = []"
  using unknown_kind_rejected_before_remote_call [OF not_registered_widgets, of echo "((), [])"
    "\<lparr>name = ''w1'', namespace = None, spec = []\<rparr>" "''w1''" "\<lparr>patch_spec = []\<rparr>"]
    not_registered_widgets
  by simp















text \<open>
  C10. Every plural of the registry is a key of the kind table, so for a kind that passes
  the registry check the resolved kind is the table's entry; a plural for which the table
  has no entry, the only case in which the capitalisation is taken, is rejected by create
  as an invalid resource, with no call made.
\<close>

theorem registry_covered_by_kind_mapping:
  "(resource \<in> set RESOURCES \<longrightarrow>
      (\<exists>kind. map_of kind_mapping resource = Some kind \<and> resolve_kind resource = kind))
   \<and> (map_of kind_mapping resource = None \<longrightarrow>
      create_resource api resource create_body w =
        (HTTPException 400 ''Invalid resource type'', w))"
proof -
  have "resource \<in> set RESOURCES \<Longrightarrow> map_of kind_mapping resource \<noteq> None"
    unfolding registry_is_table_keys by (simp add: map_of_eq_None_iff)
  then show ?thesis
    by (auto simp: resolve_kind_def create_resource_def)
qed

theorem registry_covered_by_kind_mapping_witness:
  "''subnets'' \<in> set RESOURCES
   \<and> map_of kind_mapping ''subnets'' = Some ''Subnet''
   \<and> resolve_kind ''subnets'' = ''Subnet''
   \<and> map_of kind_mapping ''widgets'' = None
   \<and> create_resource echo ''widgets'' \<lparr>name = ''w1'', namespace = None, spec = []\<rparr> ((), []) =
       (HTTPException 400 ''Invalid resource type'', ((), []))"
proof -
  have none: "map_of kind_mapping ''widgets'' = None"
    by (simp add: kind_mapping_def)
  have some: "map_of kind_mapping ''subnets'' = Some ''Subnet''"
    by (simp add: kind_mapping_def)
  from registry_covered_by_kind_mapping [of "''subnets''"] registered_subnets some
  have "resolve_kind ''subnets'' = ''Subnet''"
    by auto
  moreover
  from registry_covered_by_kind_mapping
    [of "''widgets''" echo "\<lparr>name = ''w1'', namespace = None, spec = []\<rparr>" "((), [])"] none
  have "create_resource echo ''widgets'' \<lparr>name = ''w1'', namespace = None, spec = []\<rparr> ((), []) =
          (HTTPException 400 ''Invalid resource type'', ((), []))"
    by blast
  ultimately show ?thesis
    using registered_subnets some none by simp
qed

section \<open>Create\<close>

text \<open>
  C3. For a registered kind, create adds exactly one call to the calls made: the create
  call for that kind with the manifest of \<open>apiVersion\<close> \<open>"kubeovn.io/v1"\<close>, the resolved
  kind, the metadata with the name (and the namespace only when one is given and is not
  the empty string) and the given spec.
\<close>

theorem create_submits_manifest:
  assumes "resource \<in> set RESOURCES"
  shows "snd (snd (create_resource api resource create_body (s, made))) =
           made @ [CreateCall ''kubeovn.io'' ''v1'' resource
             (JObj [(''apiVersion'', JStr ''kubeovn.io/v1''),
                    (''kind'', JStr (resolve_kind resource)),
                    (''metadata'',
                       JObj ((''name'', JStr (name create_body)) #
                             (case namespace create_body of
                                None \<Rightarrow> []
                              | Some ns \<Rightarrow> if ns = [] then [] else [(''namespace'', JStr ns)]))),
                    (''spec'', JObj (spec create_body))])]"
proof -
  obtain r s' where api: "api s (CreateCall GROUP VERSION resource
      (manifest_of (resolve_kind resource) create_body)) = (r, s')"
    by (cases "api s (CreateCall GROUP VERSION resource
      (manifest_of (resolve_kind resource) create_body))") 
  have "snd (snd (create_resource api resource create_body (s, made))) =
          made @ [CreateCall GROUP VERSION resource (manifest_of (resolve_kind resource) create_body)]"
    using assms api
    by (simp add: create_resource_def invoke_def Let_def split: sum.splits exn.splits)
  then show ?thesis
    by (simp add: manifest_of_def GROUP_def VERSION_def)
qed

theorem create_submits_manifest_witness:
  "''subnets'' \<in> set RESOURCES
   \<and> snd (snd (create_resource echo ''subnets''
         \<lparr>name = ''s1'', namespace = None, spec = [(''cidrBlock'', JStr ''10.0.0.0/24'')]\<rparr>
         ((), []))) =
       [CreateCall ''kubeovn.io'' ''v1'' ''subnets''
          (JObj [(''apiVersion'', JStr ''kubeovn.io/v1''),
                 (''kind'', JStr ''Subnet''),
                 (''metadata'', JObj [(''name'', JStr ''s1'')]),
                 (''spec'', JObj [(''cidrBlock'', JStr ''10.0.0.0/24'')])])]"
proof -
  have k: "resolve_kind ''subnets'' = ''Subnet''"
    by (simp add: resolve_kind_def kind_mapping_def)
  show ?thesis
    using create_submits_manifest [OF registered_subnets, of echo
        "\<lparr>name = ''s1'', namespace = None, spec = [(''cidrBlock'', JStr ''10.0.0.0/24'')]\<rparr>"
        "()" "[]"] registered_subnets k
    by simp
qed



section \<open>Patch: the shallow merge\<close>

lemma map_of_dict_set: "map_of (dict_set d k v) = (map_of d)(k \<mapsto> v)"
  by (induction d k v rule: dict_set.induct) auto

lemma keys_dict_set: "fst ` set (dict_set d k v) = insert k (fst ` set d)"
  by (induction d k v rule: dict_set.induct) auto

lemma distinct_dict_set:
  "distinct (map fst d) \<Longrightarrow> distinct (map fst (dict_set d k v))"
proof (induction d k v rule: dict_set.induct)
  case (1 key v)
  then show ?case by simp
next
  case (2 k w kvs key v)
  then show ?case
    using keys_dict_set [of kvs key v] by (auto simp: image_iff)
qed

lemma map_of_dict_update:
  "distinct (map fst other) \<Longrightarrow>
     map_of (dict_update d other) k =
       (case map_of other k of Some v \<Rightarrow> Some v | None \<Rightarrow> map_of d k)"
  unfolding dict_update_def
proof (induction other arbitrary: d)
  case Nil
  then show ?case by simp
next
  case (Cons p other)
  obtain k' v' where p: "p = (k', v')" by (cases p)
  from Cons.prems p have fresh: "map_of other k' = None"
    by (simp add: map_of_eq_None_iff)
  from Cons.prems have "distinct (map fst other)" by simp
  from Cons.IH [OF this, of "dict_set d k' v'"] fresh show ?case
    by (auto simp: p map_of_dict_set split: option.splits)
qed

lemma distinct_dict_update:
  "distinct (map fst d) \<Longrightarrow> distinct (map fst (dict_update d other))"
  unfolding dict_update_def
  by (induction other arbitrary: d) (auto simp: distinct_dict_set)

lemma update_spec_dict:
  "map_of obj ''spec'' = Some (JObj cur) \<Longrightarrow>
     update_spec (JObj obj) patch = Inr (JObj (dict_set obj ''spec'' (JObj (dict_update cur patch))))"
  by (simp add: update_spec_def)

lemma patch_try_merged:
  assumes "api s (GetCall GROUP VERSION plural nm) = (Inr (JObj obj), s1)"
    and "map_of obj ''spec'' = Some (JObj cur)"
  shows "snd (snd (patch_try api plural nm patch_body (s, made))) =
           made @ [GetCall GROUP VERSION plural nm,
                   PatchCall GROUP VERSION plural nm
                     (JObj (dict_set obj ''spec'' (JObj (dict_update cur (patch_spec patch_body)))))]"
  using assms
  by (simp add: patch_try_def invoke_def update_spec_dict split: prod.splits)

lemma patch_resource_world:
  "resource \<in> set RESOURCES \<Longrightarrow>
     snd (patch_resource api resource nm patch_body w) = snd (patch_try api resource nm patch_body w)"
  by (simp add: patch_resource_def split: prod.splits)

lemma patch_subnet_world:
  "snd (patch_subnet api nm patch_body w) = snd (patch_try api ''subnets'' nm patch_body w)"
  by (simp add: patch_subnet_def split: prod.splits)

lemma patch_vpc_nat_gateway_world:
  "snd (patch_vpc_nat_gateway api nm patch_body w) =
     snd (patch_try api ''vpc-nat-gateways'' nm patch_body w)"
  by (simp add: patch_vpc_nat_gateway_def split: prod.splits)

text \<open>
  C2. When the object read is a dictionary whose \<open>"spec"\<close> is a dictionary, each of the
  three patch handlers makes two calls, the read and the patch call, and the object it
  submits is the object read with its spec replaced by the merge: under every key the
  merge holds the value of the patch when the patch has the key (whatever the two values
  are, nested dictionaries too) and the current value otherwise. The patch is a Python
  dictionary, so its keys are distinct.
\<close>

theorem patch_shallow_merge:
  assumes "distinct (map fst (patch_spec patch_body))"
    and "api s (GetCall GROUP VERSION plural nm) = (Inr (JObj obj), s1)"
    and "map_of obj ''spec'' = Some (JObj cur)"
    and "merged = dict_update cur (patch_spec patch_body)"
    and "submitted = made @ [GetCall GROUP VERSION plural nm,
           PatchCall GROUP VERSION plural nm (JObj (dict_set obj ''spec'' (JObj merged)))]"
  shows "(\<forall>k. map_of merged k =
            (case map_of (patch_spec patch_body) k of
               Some v \<Rightarrow> Some v
             | None \<Rightarrow> map_of cur k))
       \<and> map_of (dict_set obj ''spec'' (JObj merged)) = (map_of obj)(''spec'' \<mapsto> JObj merged)
       \<and> (plural \<in> set RESOURCES \<longrightarrow>
            snd (snd (patch_resource api plural nm patch_body (s, made))) = submitted)
       \<and> (plural = ''subnets'' \<longrightarrow>
            snd (snd (patch_subnet api nm patch_body (s, made))) = submitted)
       \<and> (plural = ''vpc-nat-gateways'' \<longrightarrow>
            snd (snd (patch_vpc_nat_gateway api nm patch_body (s, made))) = submitted)"
proof -
  have calls: "snd (snd (patch_try api plural nm patch_body (s, made))) = submitted"
    using patch_try_merged [where api = api and s = s, OF assms(2,3)] assms(4,5) by simp
  have a: "\<forall>k. map_of merged k =
            (case map_of (patch_spec patch_body) k of Some v \<Rightarrow> Some v | None \<Rightarrow> map_of cur k)"
    using map_of_dict_update [OF assms(1)] assms(4) by simp
  have b: "map_of (dict_set obj ''spec'' (JObj merged)) = (map_of obj)(''spec'' \<mapsto> JObj merged)"
    by (rule map_of_dict_set)
  have c: "plural \<in> set RESOURCES \<Longrightarrow>
             snd (snd (patch_resource api plural nm patch_body (s, made))) = submitted"
    using calls by (simp add: patch_resource_world)
  have d: "plural = ''subnets'' \<Longrightarrow>
             snd (snd (patch_subnet api nm patch_body (s, made))) = submitted"
    using calls by (simp add: patch_subnet_world)
  have e: "plural = ''vpc-nat-gateways'' \<Longrightarrow>
             snd (snd (patch_vpc_nat_gateway api nm patch_body (s, made))) = submitted"
    using calls by (simp add: patch_vpc_nat_gateway_world)
  from a b c d e show ?thesis by blast
qed

lemma echo_get:
  "echo () (GetCall GROUP VERSION plural nm) =
     (Inr (JObj [(''kind'', JStr ''Subnet''), (''spec'', JObj [(''a'', JInt 1), (''b'', JInt 3)])]), ())"
  by (simp add: echo_def)

theorem patch_shallow_merge_witness:
  "distinct (map fst (patch_spec \<lparr>patch_spec = [(''a'', JInt 2)]\<rparr>))
   \<and> ''subnets'' \<in> set RESOURCES
   \<and> dict_update [(''a'', JInt 1), (''b'', JInt 3)] [(''a'', JInt 2)] =
       [(''a'', JInt 2), (''b'', JInt 3)]
   \<and> snd (snd (patch_resource echo ''subnets'' ''s1'' \<lparr>patch_spec = [(''a'', JInt 2)]\<rparr> ((), []))) =
       [GetCall GROUP VERSION ''subnets'' ''s1'',
        PatchCall GROUP VERSION ''subnets'' ''s1''
          (JObj [(''kind'', JStr ''Subnet''), (''spec'', JObj [(''a'', JInt 2), (''b'', JInt 3)])])]
   \<and> snd (snd (patch_subnet echo ''s1'' \<lparr>patch_spec = [(''a'', JInt 2)]\<rparr> ((), []))) =
       [GetCall GROUP VERSION ''subnets'' ''s1'',
        PatchCall GROUP VERSION ''subnets'' ''s1''
          (JObj [(''kind'', JStr ''Subnet''), (''spec'', JObj [(''a'', JInt 2), (''b'', JInt 3)])])]
   \<and> snd (snd (patch_vpc_nat_gateway echo ''g1'' \<lparr>patch_spec = [(''a'', JInt 2)]\<rparr> ((), []))) =
       [GetCall GROUP VERSION ''vpc-nat-gateways'' ''g1'',
        PatchCall GROUP VERSION ''vpc-nat-gateways'' ''g1''
          (JObj [(''kind'', JStr ''Subnet''), (''spec'', JObj [(''a'', JInt 2), (''b'', JInt 3)])])]"
proof -
  have d: "distinct (map fst (patch_spec \<lparr>patch_spec = [(''a'', JInt 2)]\<rparr>))"
    by simp
  have m: "map_of [(''kind'', JStr ''Subnet''), (''spec'', JObj [(''a'', JInt 1), (''b'', JInt 3)])]
             ''spec'' = Some (JObj [(''a'', JInt 1), (''b'', JInt 3)])"
    by simp
  have u: "dict_update [(''a'', JInt 1), (''b'', JInt 3)] [(''a'', JInt 2)] =
             [(''a'', JInt 2), (''b'', JInt 3)]"
    by (simp add: dict_update_def)
  show ?thesis
    using patch_shallow_merge
      [where api = echo and s = "()" and made = "[]" and plural = "''subnets''" and nm = "''s1''",
       OF d echo_get m refl refl]
      patch_shallow_merge
      [where api = echo and s = "()" and made = "[]" and plural = "''vpc-nat-gateways''"
         and nm = "''g1''",
       OF d echo_get m refl refl]
      registered_subnets u d
    by simp
qed

section \<open>The invalid kind's status\<close>

lemma capitalize_subnets: "capitalize ''subnets'' = ''Subnets''"
  by code_simp

lemma capitalize_vpc_nat_gateways: "capitalize ''vpc-nat-gateways'' = ''Vpc-nat-gateways''"
  by code_simp

text \<open>
  C8. The list endpoint answers a kind outside the registry with a returned document, so
  with status 200 and not with a client error.
\<close>

theorem unknown_kind_list_not_client_error:
  "''widgets'' \<notin> set RESOURCES
   \<and> status_code (fst (get_resources echo ''widgets'' ((), []))) = 200
   \<and> \<not> (400 \<le> status_code (fst (get_resources echo ''widgets'' ((), [])))
        \<and> status_code (fst (get_resources echo ''widgets'' ((), []))) < 500)"
  using not_registered_widgets by (simp add: get_resources_def)

text \<open>
  C8, amended. For a kind outside the registry, create, patch and delete raise the client
  error 400 "Invalid resource type", the list endpoint returns the document
  \<open>{"error": "Invalid resource type"}\<close> with status 200, and none of the four touches the
  remote: the world comes back unchanged.
\<close>

theorem unknown_kind_status:
  assumes "resource \<notin> set RESOURCES"
  shows "create_resource api resource create_body w =
           (HTTPException 400 ''Invalid resource type'', w)
       \<and> patch_resource api resource nm patch_body w =
           (HTTPException 400 ''Invalid resource type'', w)
       \<and> delete_resource api resource nm w =
           (HTTPException 400 ''Invalid resource type'', w)
       \<and> status_code (fst (create_resource api resource create_body w)) = 400
       \<and> status_code (fst (patch_resource api resource nm patch_body w)) = 400
       \<and> status_code (fst (delete_resource api resource nm w)) = 400
       \<and> get_resources api resource w =
           (Return (JObj [(''error'', JStr ''Invalid resource type'')]), w)
       \<and> status_code (fst (get_resources api resource w)) = 200"
  using assms
  by (simp add: get_resources_def create_resource_def patch_resource_def delete_resource_def)

theorem unknown_kind_status_witness:
  "''widgets'' \<notin> set RESOURCES
   \<and> status_code (fst (create_resource echo ''widgets''
        \<lparr>name = ''w1'', namespace = None, spec = []\<rparr> ((), []))) = 400
   \<and> status_code (fst (patch_resource echo ''widgets'' ''w1'' \<lparr>patch_spec = []\<rparr> ((), []))) = 400
   \<and> status_code (fst (delete_resource echo ''widgets'' ''w1'' ((), []))) = 400
   \<and> get_resources echo ''widgets'' ((), []) =
       (Return (JObj [(''error'', JStr ''Invalid resource type'')]), ((), []))"
  using unknown_kind_status [OF not_registered_widgets, of echo
    "\<lparr>name = ''w1'', namespace = None, spec = []\<rparr>" "((), [])" "''w1''" "\<lparr>patch_spec = []\<rparr>"]
    not_registered_widgets
  by simp

section \<open>Kind-specific routes and the generic route\<close>

lemma except_not_found_status:
  "status_code (except_not_found l1 nm r) = status_code (except_not_found l2 nm r)"
  by (cases "(l1, nm, r)" rule: except_not_found.cases) auto

lemma except_not_found_same:
  "status_code (except_not_found l1 nm r) \<noteq> 404 \<Longrightarrow>
     except_not_found l1 nm r = except_not_found l2 nm r"
  by (cases "(l1, nm, r)" rule: except_not_found.cases) (auto split: if_splits)

lemma except_not_found_404:
  "status_code (except_not_found l nm r) = 404 \<Longrightarrow>
     except_not_found l nm r = HTTPException 404 (l @ '' '' @ quoted nm @ '' not found'')"
  by (cases "(l, nm, r)" rule: except_not_found.cases) (auto split: if_splits)

lemma patch_subnet_response:
  "fst (patch_subnet api nm patch_body w) =
     except_not_found ''Subnet'' nm (fst (patch_try api ''subnets'' nm patch_body w))"
  by (simp add: patch_subnet_def split: prod.splits)

lemma specific_routes_first:
  "nm \<noteq> [] \<Longrightarrow>
     dispatch PATCH [''api'', ''subnets'', nm] = Some (Patch_subnet, [(''subnet_name'', nm)])
   \<and> dispatch PATCH [''api'', ''vpc-nat-gateways'', nm] =
       Some (Patch_vpc_nat_gateway, [(''gateway_name'', nm)])
   \<and> dispatch DELETE [''api'', ''subnets'', nm] = Some (Delete_subnet, [(''subnet_name'', nm)])
   \<and> dispatch DELETE [''api'', ''vpc-nat-gateways'', nm] =
       Some (Delete_vpc_nat_gateway, [(''gateway_name'', nm)])
   \<and> match_path [Lit ''api'', Param ''resource'', Param ''resource_name'']
         [''api'', ''subnets'', nm] =
       Some [(''resource'', ''subnets''), (''resource_name'', nm)]
   \<and> match_path [Lit ''api'', Param ''resource'', Param ''resource_name'']
         [''api'', ''vpc-nat-gateways'', nm] =
       Some [(''resource'', ''vpc-nat-gateways''), (''resource_name'', nm)]"
  by (simp add: dispatch_def routes_def)


lemma delete_try_cases:
  "(\<exists>e. fst (delete_try api plural l nm w) = Inl e)
   \<or> fst (delete_try api plural l nm w) =
       Inr (JObj [(''message'', JStr (l @ '' '' @ quoted nm @ '' deleted successfully''))])"
proof -
  obtain r w1 where Pair: "invoke api (GetCall GROUP VERSION plural nm) w = (r, w1)"
    by (cases "invoke api (GetCall GROUP VERSION plural nm) w") auto
  show ?thesis
  proof (cases r)
    case (Inl e)
    with Pair show ?thesis by (simp add: delete_try_def)
  next
    case (Inr current)
    obtain r2 w2 where second: "invoke api (DeleteCall GROUP VERSION plural nm) w1 = (r2, w2)"
      by (cases "invoke api (DeleteCall GROUP VERSION plural nm) w1") auto
    with Pair Inr show ?thesis
      by (cases r2) (simp_all add: delete_try_def)
  qed
qed

lemma delete_try_label:
  "snd (delete_try api plural l1 nm w) = snd (delete_try api plural l2 nm w)
   \<and> (fst (delete_try api plural l1 nm w) = Inl e \<longrightarrow>
        fst (delete_try api plural l2 nm w) = Inl e)
   \<and> ((\<exists>r. fst (delete_try api plural l1 nm w) = Inr r) \<longrightarrow>
        (\<exists>r. fst (delete_try api plural l2 nm w) = Inr r))"
proof -
  obtain r w1 where Pair: "invoke api (GetCall GROUP VERSION plural nm) w = (r, w1)"
    by (cases "invoke api (GetCall GROUP VERSION plural nm) w") auto
  show ?thesis
  proof (cases r)
    case (Inl e)
    with Pair show ?thesis by (simp add: delete_try_def)
  next
    case (Inr current)
    obtain r2 w2 where second: "invoke api (DeleteCall GROUP VERSION plural nm) w1 = (r2, w2)"
      by (cases "invoke api (DeleteCall GROUP VERSION plural nm) w1") auto
    with Pair Inr show ?thesis
      by (cases r2) (simp_all add: delete_try_def)
  qed
qed


lemma patch_vpc_nat_gateway_response:
  "fst (patch_vpc_nat_gateway api nm patch_body w) =
     except_not_found ''VPC NAT Gateway'' nm
       (fst (patch_try api ''vpc-nat-gateways'' nm patch_body w))"
  by (simp add: patch_vpc_nat_gateway_def split: prod.splits)

lemma patch_resource_response:
  "resource \<in> set RESOURCES \<Longrightarrow>
     fst (patch_resource api resource nm patch_body w) =
       except_not_found (capitalize resource) nm (fst (patch_try api resource nm patch_body w))"
  by (simp add: patch_resource_def split: prod.splits)

lemma delete_subnet_response:
  "fst (delete_subnet api nm w) =
     except_not_found ''Subnet'' nm (fst (delete_try api ''subnets'' ''Subnet'' nm w))"
  by (simp add: delete_subnet_def split: prod.splits)

lemma delete_subnet_world:
  "snd (delete_subnet api nm w) = snd (delete_try api ''subnets'' ''Subnet'' nm w)"
  by (simp add: delete_subnet_def split: prod.splits)

lemma delete_vpc_nat_gateway_response:
  "fst (delete_vpc_nat_gateway api nm w) =
     except_not_found ''VPC NAT Gateway'' nm
       (fst (delete_try api ''vpc-nat-gateways'' ''VPC NAT Gateway'' nm w))"
  by (simp add: delete_vpc_nat_gateway_def split: prod.splits)

lemma delete_vpc_nat_gateway_world:
  "snd (delete_vpc_nat_gateway api nm w) =
     snd (delete_try api ''vpc-nat-gateways'' ''VPC NAT Gateway'' nm w)"
  by (simp add: delete_vpc_nat_gateway_def split: prod.splits)

lemma delete_resource_response:
  "resource \<in> set RESOURCES \<Longrightarrow>
     fst (delete_resource api resource nm w) =
       except_not_found (capitalize resource) nm
         (fst (delete_try api resource (capitalize resource) nm w))"
  by (simp add: delete_resource_def split: prod.splits)

lemma delete_resource_world:
  "resource \<in> set RESOURCES \<Longrightarrow>
     snd (delete_resource api resource nm w) =
       snd (delete_try api resource (capitalize resource) nm w)"
  by (simp add: delete_resource_def split: prod.splits)

lemma except_not_found_raises:
  "except_not_found l nm (Inl e) \<noteq> Return body"
  by (cases e) simp_all

text \<open>Two handlers whose \<open>except\<close> clauses differ in the label only.\<close>

lemma patch_pair:
  assumes a: "fst x = except_not_found l1 nm r" and b: "fst y = except_not_found l2 nm r"
  shows "status_code (fst x) = status_code (fst y)
       \<and> (status_code (fst x) \<noteq> 404 \<longrightarrow> fst x = fst y)
       \<and> (status_code (fst x) = 404 \<longrightarrow>
            fst x = HTTPException 404 (l1 @ '' '' @ quoted nm @ '' not found'')
          \<and> fst y = HTTPException 404 (l2 @ '' '' @ quoted nm @ '' not found''))"
proof -
  have s: "status_code (fst x) = status_code (fst y)"
    unfolding a b by (rule except_not_found_status)
  have n: "status_code (fst x) \<noteq> 404 \<Longrightarrow> fst x = fst y"
    unfolding a b by (rule except_not_found_same)
  have f1: "status_code (fst x) = 404 \<Longrightarrow>
              fst x = HTTPException 404 (l1 @ '' '' @ quoted nm @ '' not found'')"
    unfolding a by (rule except_not_found_404)
  have f2: "status_code (fst y) = 404 \<Longrightarrow>
              fst y = HTTPException 404 (l2 @ '' '' @ quoted nm @ '' not found'')"
    unfolding b by (rule except_not_found_404)
  from s n f1 f2 show ?thesis by metis
qed

lemma delete_pair:
  assumes a: "fst x = except_not_found l1 nm (fst (delete_try api plural l1 nm w))"
    and b: "fst y = except_not_found l2 nm (fst (delete_try api plural l2 nm w))"
  shows "status_code (fst x) = status_code (fst y)
       \<and> (\<forall>st d. fst x = HTTPException st d \<and> st \<noteq> 404 \<longrightarrow> fst y = HTTPException st d)
       \<and> (status_code (fst x) = 404 \<longrightarrow>
            fst x = HTTPException 404 (l1 @ '' '' @ quoted nm @ '' not found'')
          \<and> fst y = HTTPException 404 (l2 @ '' '' @ quoted nm @ '' not found''))
       \<and> (\<forall>body. fst x = Return body \<longrightarrow>
            body = JObj [(''message'', JStr (l1 @ '' '' @ quoted nm @ '' deleted successfully''))]
          \<and> fst y =
              Return (JObj [(''message'', JStr (l2 @ '' '' @ quoted nm @ '' deleted successfully''))]))"
proof -
  from delete_try_cases [of api plural l1 nm w] show ?thesis
  proof
    assume "\<exists>e. fst (delete_try api plural l1 nm w) = Inl e"
    then obtain e where e1: "fst (delete_try api plural l1 nm w) = Inl e" ..
    with delete_try_label [of api plural l1 nm w l2 e]
    have e2: "fst (delete_try api plural l2 nm w) = Inl e" by simp
    have a': "fst x = except_not_found l1 nm (Inl e)" using a e1 by simp
    have b': "fst y = except_not_found l2 nm (Inl e)" using b e2 by simp
    have noret: "\<And>body. fst x \<noteq> Return body"
      unfolding a' by (rule except_not_found_raises)
    from patch_pair [OF a' b'] noret show ?thesis
      by (metis status_code.simps(2))
  next
    assume s1: "fst (delete_try api plural l1 nm w) =
      Inr (JObj [(''message'', JStr (l1 @ '' '' @ quoted nm @ '' deleted successfully''))])"
    with delete_try_label [of api plural l1 nm w l2]
    have "\<exists>r. fst (delete_try api plural l2 nm w) = Inr r" by simp
    with delete_try_cases [of api plural l2 nm w]
    have s2: "fst (delete_try api plural l2 nm w) =
      Inr (JObj [(''message'', JStr (l2 @ '' '' @ quoted nm @ '' deleted successfully''))])"
      by auto
    show ?thesis using a b s1 s2 by simp
  qed
qed


text \<open>
  C5. The kind-specific patch handler for subnets and the generic handler called with
  \<open>"subnets"\<close> do not give the same response: on a remote that answers 404 the first
  says "Subnet 's1' not found", the second "Subnets 's1' not found".
\<close>

theorem specific_handler_differs_from_generic:
  "patch_subnet always_404 ''s1'' \<lparr>patch_spec = []\<rparr> ((), []) =
     (HTTPException 404 (''Subnet '' @ [CHR 0x27] @ ''s1'' @ [CHR 0x27] @ '' not found''),
      ((), [GetCall GROUP VERSION ''subnets'' ''s1'']))
   \<and> patch_resource always_404 ''subnets'' ''s1'' \<lparr>patch_spec = []\<rparr> ((), []) =
     (HTTPException 404 (''Subnets '' @ [CHR 0x27] @ ''s1'' @ [CHR 0x27] @ '' not found''),
      ((), [GetCall GROUP VERSION ''subnets'' ''s1'']))
   \<and> patch_subnet always_404 ''s1'' \<lparr>patch_spec = []\<rparr> ((), []) \<noteq>
       patch_resource always_404 ''subnets'' ''s1'' \<lparr>patch_spec = []\<rparr> ((), [])"
  using registered_subnets capitalize_subnets
  by (simp add: patch_subnet_def patch_resource_def patch_try_def invoke_def always_404_def
        quoted_def)

text \<open>
  C5, amended. A PATCH or DELETE of \<open>/api/subnets/{name}\<close> or
  \<open>/api/vpc-nat-gateways/{name}\<close> is served by the kind-specific route, although the generic
  route matches the path too. Each kind-specific handler makes the same calls and leaves
  the same world as the generic handler called with that kind, and gives the same status;
  the responses are equal except for the kind's label in two texts: the not-found detail
  and the delete confirmation say "Subnet" and "VPC NAT Gateway" where the generic handler
  says the capitalised plural, "Subnets" and "Vpc-nat-gateways".
\<close>

theorem specific_routes_first_and_agree:
  "(nm \<noteq> [] \<longrightarrow>
      dispatch PATCH [''api'', ''subnets'', nm] = Some (Patch_subnet, [(''subnet_name'', nm)])
    \<and> dispatch PATCH [''api'', ''vpc-nat-gateways'', nm] =
        Some (Patch_vpc_nat_gateway, [(''gateway_name'', nm)])
    \<and> dispatch DELETE [''api'', ''subnets'', nm] = Some (Delete_subnet, [(''subnet_name'', nm)])
    \<and> dispatch DELETE [''api'', ''vpc-nat-gateways'', nm] =
        Some (Delete_vpc_nat_gateway, [(''gateway_name'', nm)])
    \<and> match_path [Lit ''api'', Param ''resource'', Param ''resource_name'']
          [''api'', ''subnets'', nm] =
        Some [(''resource'', ''subnets''), (''resource_name'', nm)]
    \<and> match_path [Lit ''api'', Param ''resource'', Param ''resource_name'']
          [''api'', ''vpc-nat-gateways'', nm] =
        Some [(''resource'', ''vpc-nat-gateways''), (''resource_name'', nm)])
   \<and> (snd (patch_subnet api nm patch_body w) = snd (patch_resource api ''subnets'' nm patch_body w)
    \<and> status_code (fst (patch_subnet api nm patch_body w)) =
        status_code (fst (patch_resource api ''subnets'' nm patch_body w))
    \<and> (status_code (fst (patch_subnet api nm patch_body w)) \<noteq> 404 \<longrightarrow>
         fst (patch_subnet api nm patch_body w) =
           fst (patch_resource api ''subnets'' nm patch_body w))
    \<and> (status_code (fst (patch_subnet api nm patch_body w)) = 404 \<longrightarrow>
         fst (patch_subnet api nm patch_body w) =
           HTTPException 404 (''Subnet'' @ '' '' @ quoted nm @ '' not found'')
       \<and> fst (patch_resource api ''subnets'' nm patch_body w) =
           HTTPException 404 (''Subnets'' @ '' '' @ quoted nm @ '' not found'')))
   \<and> (snd (patch_vpc_nat_gateway api nm patch_body w) =
        snd (patch_resource api ''vpc-nat-gateways'' nm patch_body w)
    \<and> status_code (fst (patch_vpc_nat_gateway api nm patch_body w)) =
        status_code (fst (patch_resource api ''vpc-nat-gateways'' nm patch_body w))
    \<and> (status_code (fst (patch_vpc_nat_gateway api nm patch_body w)) \<noteq> 404 \<longrightarrow>
         fst (patch_vpc_nat_gateway api nm patch_body w) =
           fst (patch_resource api ''vpc-nat-gateways'' nm patch_body w))
    \<and> (status_code (fst (patch_vpc_nat_gateway api nm patch_body w)) = 404 \<longrightarrow>
         fst (patch_vpc_nat_gateway api nm patch_body w) =
           HTTPException 404 (''VPC NAT Gateway'' @ '' '' @ quoted nm @ '' not found'')
       \<and> fst (patch_resource api ''vpc-nat-gateways'' nm patch_body w) =
           HTTPException 404 (''Vpc-nat-gateways'' @ '' '' @ quoted nm @ '' not found'')))
   \<and> (snd (delete_subnet api nm w) = snd (delete_resource api ''subnets'' nm w)
    \<and> status_code (fst (delete_subnet api nm w)) =
        status_code (fst (delete_resource api ''subnets'' nm w))
    \<and> (\<forall>st d. fst (delete_subnet api nm w) = HTTPException st d \<and> st \<noteq> 404 \<longrightarrow>
         fst (delete_resource api ''subnets'' nm w) = HTTPException st d)
    \<and> (status_code (fst (delete_subnet api nm w)) = 404 \<longrightarrow>
         fst (delete_subnet api nm w) =
           HTTPException 404 (''Subnet'' @ '' '' @ quoted nm @ '' not found'')
       \<and> fst (delete_resource api ''subnets'' nm w) =
           HTTPException 404 (''Subnets'' @ '' '' @ quoted nm @ '' not found''))
    \<and> (\<forall>body. fst (delete_subnet api nm w) = Return body \<longrightarrow>
         body = JObj [(''message'',
                  JStr (''Subnet'' @ '' '' @ quoted nm @ '' deleted successfully''))]
       \<and> fst (delete_resource api ''subnets'' nm w) =
           Return (JObj [(''message'',
                     JStr (''Subnets'' @ '' '' @ quoted nm @ '' deleted successfully''))])))
   \<and> (snd (delete_vpc_nat_gateway api nm w) = snd (delete_resource api ''vpc-nat-gateways'' nm w)
    \<and> status_code (fst (delete_vpc_nat_gateway api nm w)) =
        status_code (fst (delete_resource api ''vpc-nat-gateways'' nm w))
    \<and> (\<forall>st d. fst (delete_vpc_nat_gateway api nm w) = HTTPException st d \<and> st \<noteq> 404 \<longrightarrow>
         fst (delete_resource api ''vpc-nat-gateways'' nm w) = HTTPException st d)
    \<and> (status_code (fst (delete_vpc_nat_gateway api nm w)) = 404 \<longrightarrow>
         fst (delete_vpc_nat_gateway api nm w) =
           HTTPException 404 (''VPC NAT Gateway'' @ '' '' @ quoted nm @ '' not found'')
       \<and> fst (delete_resource api ''vpc-nat-gateways'' nm w) =
           HTTPException 404 (''Vpc-nat-gateways'' @ '' '' @ quoted nm @ '' not found''))
    \<and> (\<forall>body. fst (delete_vpc_nat_gateway api nm w) = Return body \<longrightarrow>
         body = JObj [(''message'',
                  JStr (''VPC NAT Gateway'' @ '' '' @ quoted nm @ '' deleted successfully''))]
       \<and> fst (delete_resource api ''vpc-nat-gateways'' nm w) =
           Return (JObj [(''message'',
                     JStr (''Vpc-nat-gateways'' @ '' '' @ quoted nm @ '' deleted successfully''))])))"
proof -
  have p1: "nm \<noteq> [] \<longrightarrow>
      dispatch PATCH [''api'', ''subnets'', nm] = Some (Patch_subnet, [(''subnet_name'', nm)])
    \<and> dispatch PATCH [''api'', ''vpc-nat-gateways'', nm] =
        Some (Patch_vpc_nat_gateway, [(''gateway_name'', nm)])
    \<and> dispatch DELETE [''api'', ''subnets'', nm] = Some (Delete_subnet, [(''subnet_name'', nm)])
    \<and> dispatch DELETE [''api'', ''vpc-nat-gateways'', nm] =
        Some (Delete_vpc_nat_gateway, [(''gateway_name'', nm)])
    \<and> match_path [Lit ''api'', Param ''resource'', Param ''resource_name'']
          [''api'', ''subnets'', nm] =
        Some [(''resource'', ''subnets''), (''resource_name'', nm)]
    \<and> match_path [Lit ''api'', Param ''resource'', Param ''resource_name'']
          [''api'', ''vpc-nat-gateways'', nm] =
        Some [(''resource'', ''vpc-nat-gateways''), (''resource_name'', nm)]"
    using specific_routes_first [of nm] by blast

  have g1: "fst (patch_resource api ''subnets'' nm patch_body w) =
      except_not_found ''Subnets'' nm (fst (patch_try api ''subnets'' nm patch_body w))"
    by (rule patch_resource_response [OF registered_subnets, unfolded capitalize_subnets])
  have "snd (patch_subnet api nm patch_body w) =
      snd (patch_resource api ''subnets'' nm patch_body w)"
    by (simp add: patch_subnet_world patch_resource_world [OF registered_subnets])
  with patch_pair [OF patch_subnet_response g1]
  have p2: "snd (patch_subnet api nm patch_body w) = snd (patch_resource api ''subnets'' nm patch_body w)
    \<and> status_code (fst (patch_subnet api nm patch_body w)) =
        status_code (fst (patch_resource api ''subnets'' nm patch_body w))
    \<and> (status_code (fst (patch_subnet api nm patch_body w)) \<noteq> 404 \<longrightarrow>
         fst (patch_subnet api nm patch_body w) =
           fst (patch_resource api ''subnets'' nm patch_body w))
    \<and> (status_code (fst (patch_subnet api nm patch_body w)) = 404 \<longrightarrow>
         fst (patch_subnet api nm patch_body w) =
           HTTPException 404 (''Subnet'' @ '' '' @ quoted nm @ '' not found'')
       \<and> fst (patch_resource api ''subnets'' nm patch_body w) =
           HTTPException 404 (''Subnets'' @ '' '' @ quoted nm @ '' not found''))"
    by blast

  have g2: "fst (patch_resource api ''vpc-nat-gateways'' nm patch_body w) =
      except_not_found ''Vpc-nat-gateways'' nm
        (fst (patch_try api ''vpc-nat-gateways'' nm patch_body w))"
    by (rule patch_resource_response
          [OF registered_vpc_nat_gateways, unfolded capitalize_vpc_nat_gateways])
  have "snd (patch_vpc_nat_gateway api nm patch_body w) =
      snd (patch_resource api ''vpc-nat-gateways'' nm patch_body w)"
    by (simp add: patch_vpc_nat_gateway_world patch_resource_world [OF registered_vpc_nat_gateways])
  with patch_pair [OF patch_vpc_nat_gateway_response g2]
  have p3: "snd (patch_vpc_nat_gateway api nm patch_body w) =
        snd (patch_resource api ''vpc-nat-gateways'' nm patch_body w)
    \<and> status_code (fst (patch_vpc_nat_gateway api nm patch_body w)) =
        status_code (fst (patch_resource api ''vpc-nat-gateways'' nm patch_body w))
    \<and> (status_code (fst (patch_vpc_nat_gateway api nm patch_body w)) \<noteq> 404 \<longrightarrow>
         fst (patch_vpc_nat_gateway api nm patch_body w) =
           fst (patch_resource api ''vpc-nat-gateways'' nm patch_body w))
    \<and> (status_code (fst (patch_vpc_nat_gateway api nm patch_body w)) = 404 \<longrightarrow>
         fst (patch_vpc_nat_gateway api nm patch_body w) =
           HTTPException 404 (''VPC NAT Gateway'' @ '' '' @ quoted nm @ '' not found'')
       \<and> fst (patch_resource api ''vpc-nat-gateways'' nm patch_body w) =
           HTTPException 404 (''Vpc-nat-gateways'' @ '' '' @ quoted nm @ '' not found''))"
    by blast

  have g3: "fst (delete_resource api ''subnets'' nm w) =
      except_not_found ''Subnets'' nm (fst (delete_try api ''subnets'' ''Subnets'' nm w))"
    by (rule delete_resource_response [OF registered_subnets, unfolded capitalize_subnets])
  have "snd (delete_subnet api nm w) = snd (delete_resource api ''subnets'' nm w)"
    using delete_try_label [of api "''subnets''" "''Subnet''" nm w "''Subnets''"]
    by (simp only: delete_subnet_world
          delete_resource_world [OF registered_subnets, unfolded capitalize_subnets])
  with delete_pair [OF delete_subnet_response g3]
  have p4: "snd (delete_subnet api nm w) = snd (delete_resource api ''subnets'' nm w)
    \<and> status_code (fst (delete_subnet api nm w)) =
        status_code (fst (delete_resource api ''subnets'' nm w))
    \<and> (\<forall>st d. fst (delete_subnet api nm w) = HTTPException st d \<and> st \<noteq> 404 \<longrightarrow>
         fst (delete_resource api ''subnets'' nm w) = HTTPException st d)
    \<and> (status_code (fst (delete_subnet api nm w)) = 404 \<longrightarrow>
         fst (delete_subnet api nm w) =
           HTTPException 404 (''Subnet'' @ '' '' @ quoted nm @ '' not found'')
       \<and> fst (delete_resource api ''subnets'' nm w) =
           HTTPException 404 (''Subnets'' @ '' '' @ quoted nm @ '' not found''))
    \<and> (\<forall>body. fst (delete_subnet api nm w) = Return body \<longrightarrow>
         body = JObj [(''message'',
                  JStr (''Subnet'' @ '' '' @ quoted nm @ '' deleted successfully''))]
       \<and> fst (delete_resource api ''subnets'' nm w) =
           Return (JObj [(''message'',
                     JStr (''Subnets'' @ '' '' @ quoted nm @ '' deleted successfully''))]))"
    by blast

  have g4: "fst (delete_resource api ''vpc-nat-gateways'' nm w) =
      except_not_found ''Vpc-nat-gateways'' nm
        (fst (delete_try api ''vpc-nat-gateways'' ''Vpc-nat-gateways'' nm w))"
    by (rule delete_resource_response
          [OF registered_vpc_nat_gateways, unfolded capitalize_vpc_nat_gateways])
  have "snd (delete_vpc_nat_gateway api nm w) =
      snd (delete_resource api ''vpc-nat-gateways'' nm w)"
    using delete_try_label
      [of api "''vpc-nat-gateways''" "''VPC NAT Gateway''" nm w "''Vpc-nat-gateways''"]
    by (simp only: delete_vpc_nat_gateway_world
          delete_resource_world [OF registered_vpc_nat_gateways,
            unfolded capitalize_vpc_nat_gateways])
  with delete_pair [OF delete_vpc_nat_gateway_response g4]
  have p5: "snd (delete_vpc_nat_gateway api nm w) = snd (delete_resource api ''vpc-nat-gateways'' nm w)
    \<and> status_code (fst (delete_vpc_nat_gateway api nm w)) =
        status_code (fst (delete_resource api ''vpc-nat-gateways'' nm w))
    \<and> (\<forall>st d. fst (delete_vpc_nat_gateway api nm w) = HTTPException st d \<and> st \<noteq> 404 \<longrightarrow>
         fst (delete_resource api ''vpc-nat-gateways'' nm w) = HTTPException st d)
    \<and> (status_code (fst (delete_vpc_nat_gateway api nm w)) = 404 \<longrightarrow>
         fst (delete_vpc_nat_gateway api nm w) =
           HTTPException 404 (''VPC NAT Gateway'' @ '' '' @ quoted nm @ '' not found'')
       \<and> fst (delete_resource api ''vpc-nat-gateways'' nm w) =
           HTTPException 404 (''Vpc-nat-gateways'' @ '' '' @ quoted nm @ '' not found''))
    \<and> (\<forall>body. fst (delete_vpc_nat_gateway api nm w) = Return body \<longrightarrow>
         body = JObj [(''message'',
                  JStr (''VPC NAT Gateway'' @ '' '' @ quoted nm @ '' deleted successfully''))]
       \<and> fst (delete_resource api ''vpc-nat-gateways'' nm w) =
           Return (JObj [(''message'',
                     JStr (''Vpc-nat-gateways'' @ '' '' @ quoted nm @ '' deleted successfully''))]))"
    by blast
  show ?thesis
    by (rule conjI [OF p1 conjI [OF p2 conjI [OF p3 conjI [OF p4 p5]]]])
qed


theorem specific_routes_first_and_agree_witness:
  "''s1'' \<noteq> []
   \<and> dispatch PATCH [''api'', ''subnets'', ''s1''] = Some (Patch_subnet, [(''subnet_name'', ''s1'')])
   \<and> dispatch DELETE [''api'', ''vpc-nat-gateways'', ''s1''] =
       Some (Delete_vpc_nat_gateway, [(''gateway_name'', ''s1'')])
   \<and> status_code (fst (patch_subnet always_404 ''s1'' \<lparr>patch_spec = []\<rparr> ((), []))) = 404
   \<and> fst (patch_resource always_404 ''subnets'' ''s1'' \<lparr>patch_spec = []\<rparr> ((), [])) =
       HTTPException 404 (''Subnets'' @ '' '' @ quoted ''s1'' @ '' not found'')
   \<and> status_code (fst (patch_subnet echo ''s1'' \<lparr>patch_spec = []\<rparr> ((), []))) \<noteq> 404
   \<and> fst (patch_resource echo ''subnets'' ''s1'' \<lparr>patch_spec = []\<rparr> ((), [])) =
       fst (patch_subnet echo ''s1'' \<lparr>patch_spec = []\<rparr> ((), []))
   \<and> fst (delete_vpc_nat_gateway echo ''s1'' ((), [])) =
       Return (JObj [(''message'',
         JStr (''VPC NAT Gateway'' @ '' '' @ quoted ''s1'' @ '' deleted successfully''))])
   \<and> fst (delete_resource echo ''vpc-nat-gateways'' ''s1'' ((), [])) =
       Return (JObj [(''message'',
         JStr (''Vpc-nat-gateways'' @ '' '' @ quoted ''s1'' @ '' deleted successfully''))])"
proof -
  have ne: "''s1'' \<noteq> []" by simp
  have a: "status_code (fst (patch_subnet always_404 ''s1'' \<lparr>patch_spec = []\<rparr> ((), []))) = 404"
    by (simp add: patch_subnet_def patch_try_def invoke_def always_404_def)
  have b: "status_code (fst (patch_subnet echo ''s1'' \<lparr>patch_spec = []\<rparr> ((), []))) \<noteq> 404"
    by (simp add: patch_subnet_def patch_try_def invoke_def echo_def update_spec_def
          dict_update_def)
  have c: "fst (delete_vpc_nat_gateway echo ''s1'' ((), [])) =
       Return (JObj [(''message'',
         JStr (''VPC NAT Gateway'' @ '' '' @ quoted ''s1'' @ '' deleted successfully''))])"
    by (simp add: delete_vpc_nat_gateway_def delete_try_def invoke_def echo_def)
  note t404 = specific_routes_first_and_agree
    [of "''s1''" always_404 "\<lparr>patch_spec = []\<rparr>" "((), [])"]
  note techo = specific_routes_first_and_agree
    [of "''s1''" echo "\<lparr>patch_spec = []\<rparr>" "((), [])"]
  from t404 ne have d1: "dispatch PATCH [''api'', ''subnets'', ''s1''] =
      Some (Patch_subnet, [(''subnet_name'', ''s1'')])"
    by blast
  from t404 ne have d2: "dispatch DELETE [''api'', ''vpc-nat-gateways'', ''s1''] =
      Some (Delete_vpc_nat_gateway, [(''gateway_name'', ''s1'')])"
    by blast
  from t404 a have r1: "fst (patch_resource always_404 ''subnets'' ''s1'' \<lparr>patch_spec = []\<rparr> ((), [])) =
      HTTPException 404 (''Subnets'' @ '' '' @ quoted ''s1'' @ '' not found'')"
    by blast
  from techo b have r2: "fst (patch_resource echo ''subnets'' ''s1'' \<lparr>patch_spec = []\<rparr> ((), [])) =
      fst (patch_subnet echo ''s1'' \<lparr>patch_spec = []\<rparr> ((), []))"
    by metis
  from techo c have r3: "fst (delete_resource echo ''vpc-nat-gateways'' ''s1'' ((), [])) =
      Return (JObj [(''message'',
        JStr (''Vpc-nat-gateways'' @ '' '' @ quoted ''s1'' @ '' deleted successfully''))])"
    by blast
  from ne d1 d2 a r1 b r2 c r3 show ?thesis by blast
qed

section \<open>Not found\<close>
















section \<open>The watch relay\<close>










lemma plain_Subscribe: "plain [Subscribe g v r]"
  by (simp add: plain_def)













end
